theory Spec2Isabelle
  imports Complex_Main
begin

section \<open>JavaScript values\<close>

text \<open>
  The tools receive untyped values: what the API client parsed from JSON, plus
  \<open>undefined\<close> for a property that is absent. A JavaScript number is NaN, an infinity
  or a finite value; the finite values are kept exact.
\<close>

datatype jsnum = NaN | PosInfinity | NegInfinity | Finite rat

datatype jsval =
    JUndefined
  | JNull
  | JBool bool
  | JNum jsnum
  | JStr string
  | JArr "jsval list"
  | JObj "(string \<times> jsval) list"

datatype jstype = TUndefined | TObject | TBoolean | TNumber | TString

fun typeof :: "jsval \<Rightarrow> jstype" where
  "typeof JUndefined = TUndefined"
| "typeof JNull = TObject"
| "typeof (JBool b) = TBoolean"
| "typeof (JNum n) = TNumber"
| "typeof (JStr s) = TString"
| "typeof (JArr xs) = TObject"
| "typeof (JObj fs) = TObject"

fun isArray :: "jsval \<Rightarrow> bool" where
  "isArray (JArr xs) = True"
| "isArray v = False"

text \<open>Truthiness of a number: everything but NaN and zero.\<close>

fun truthy_num :: "jsnum \<Rightarrow> bool" where
  "truthy_num NaN = False"
| "truthy_num (Finite q) = (q \<noteq> 0)"
| "truthy_num PosInfinity = True"
| "truthy_num NegInfinity = True"

text \<open>Truthiness of a value, which is also what \<open>Boolean(v)\<close> returns.\<close>

fun truthy :: "jsval \<Rightarrow> bool" where
  "truthy JUndefined = False"
| "truthy JNull = False"
| "truthy (JBool b) = b"
| "truthy (JNum n) = truthy_num n"
| "truthy (JStr s) = (s \<noteq> [])"
| "truthy (JArr xs) = True"
| "truthy (JObj fs) = True"

text \<open>
  Property read \<open>v.k\<close>: the value stored under the key, \<open>undefined\<close> when there is
  none. An object is its list of key/value pairs, each key once.
\<close>

fun get_prop :: "jsval \<Rightarrow> string \<Rightarrow> jsval" where
  "get_prop (JObj fs) k = (case map_of fs k of None \<Rightarrow> JUndefined | Some v \<Rightarrow> v)"
| "get_prop v k = JUndefined"


text \<open>
  The conversions of the language that depend on the text of a number or on the
  serialisation of a structure are parameters of the model: what \<open>Number\<close> reads from a
  string, what it makes of an array or object, what \<open>String\<close> prints for a number, and
  \<open>JSON.stringify\<close>, which is \<open>None\<close> where it throws.
\<close>

record builtins =
  StringToNumber :: "string \<Rightarrow> jsnum"
  ObjectToNumber :: "jsval \<Rightarrow> jsnum"
  NumberToString :: "jsnum \<Rightarrow> string"
  JSON_stringify :: "jsval \<Rightarrow> string option"

text \<open>\<open>Number(v)\<close>.\<close>

fun Number_js :: "builtins \<Rightarrow> jsval \<Rightarrow> jsnum" where
  "Number_js B JUndefined = NaN"
| "Number_js B JNull = Finite 0"
| "Number_js B (JBool b) = (if b then Finite 1 else Finite 0)"
| "Number_js B (JNum n) = n"
| "Number_js B (JStr s) = StringToNumber B s"
| "Number_js B (JArr xs) = ObjectToNumber B (JArr xs)"
| "Number_js B (JObj fs) = ObjectToNumber B (JObj fs)"

text \<open>
  An instance of the parameters for closed examples. The examples below use inputs on
  which none of the four conversions is consulted.
\<close>

definition example_builtins :: builtins where
  "example_builtins =
     \<lparr>StringToNumber = (\<lambda>s. NaN), ObjectToNumber = (\<lambda>v. NaN),
      NumberToString = (\<lambda>n. []), JSON_stringify = (\<lambda>v. None)\<rparr>"

section \<open>Errors\<close>

text \<open>
  Modelled from the spec: the \<open>ErrorCode\<close> enumeration and the \<open>MCPError\<close> class are
  declared in \<open>../types\<close>, which is not among the sources. The kinds are the closed
  set of the specification; an \<open>MCPError\<close> carries a kind, a message and an optional
  context, empty when the constructor is called with two arguments as everywhere in
  the tools.
\<close>

datatype ErrorCode =
    AUTH_REQUIRED
  | PERMISSION_DENIED
  | VALIDATION_ERROR
  | NOT_FOUND
  | API_ERROR
  | NOT_IMPLEMENTED
  | INTERNAL_ERROR
  | INVALID_PAYLOAD

text \<open>
  What can be thrown: an \<open>MCPError\<close>, a plain \<open>Error\<close> with its message, or a value
  that is not an \<open>Error\<close> at all, kept as the text \<open>String(value)\<close>, which is all the
  handlers read of it.
\<close>

datatype exn =
    MCPError ErrorCode string "(string \<times> jsval) list"
  | Error string
  | NonError string

definition new_MCPError :: "ErrorCode \<Rightarrow> string \<Rightarrow> exn" where
  "new_MCPError c m = MCPError c m []"

text \<open>\<open>error instanceof MCPError\<close>, with the kind when it is one.\<close>

fun error_kind :: "exn \<Rightarrow> ErrorCode option" where
  "error_kind (MCPError c m ctx) = Some c"
| "error_kind e = None"

text \<open>\<open>error instanceof Error\<close>: \<open>MCPError\<close> extends \<open>Error\<close>.\<close>

fun instanceof_Error :: "exn \<Rightarrow> bool" where
  "instanceof_Error (NonError s) = False"
| "instanceof_Error e = True"

fun error_message :: "exn \<Rightarrow> string" where
  "error_message (MCPError c m ctx) = m"
| "error_message (Error m) = m"
| "error_message (NonError s) = s"

section \<open>The sanitizer: transformUser\<close>

record User =
  id' :: jsnum
  username :: string
  frontend_settings :: jsval
  email :: "string option"
  name :: "string option"
  created :: "string option"
  updated :: "string option"
  language :: "string option"
  timezone :: "string option"
  week_start :: "jsnum option"
  email_reminders_enabled :: "bool option"
  overdue_tasks_reminders_enabled :: "bool option"

definition isUserObject :: "jsval \<Rightarrow> bool" where
  "isUserObject obj = (obj \<noteq> JNull \<and> typeof obj = TObject \<and> \<not> isArray obj)"

text \<open>
  \<open>safeString\<close>, branch by branch: a string as it is, a number or boolean through
  \<open>String\<close>, an array or object through \<open>JSON.stringify\<close> with the placeholder when
  that throws, and the empty string for \<open>null\<close> and \<open>undefined\<close>.
\<close>

fun safeString :: "builtins \<Rightarrow> jsval \<Rightarrow> string" where
  "safeString B (JStr s) = s"
| "safeString B (JNum n) = NumberToString B n"
| "safeString B (JBool b) = (if b then ''true'' else ''false'')"
| "safeString B (JArr xs) =
     (case JSON_stringify B (JArr xs) of Some s \<Rightarrow> s | None \<Rightarrow> ''[object Object]'')"
| "safeString B (JObj fs) =
     (case JSON_stringify B (JObj fs) of Some s \<Rightarrow> s | None \<Rightarrow> ''[object Object]'')"
| "safeString B JNull = []"
| "safeString B JUndefined = []"

definition transformUser :: "builtins \<Rightarrow> jsval \<Rightarrow> exn + User" where
  "transformUser B rawUser =
     (if \<not> isUserObject rawUser then Inl (Error ''Invalid user data received'')
      else
        let user = rawUser in
        Inr \<lparr>id' = (let n = Number_js B (get_prop user ''id'')
                    in if truthy_num n then n else Finite 0),
             username = safeString B (get_prop user ''username''),
             frontend_settings =
               (if truthy (get_prop user ''frontend_settings'')
                   \<and> typeof (get_prop user ''frontend_settings'') = TObject
                then get_prop user ''frontend_settings'' else JObj []),
             email = (if truthy (get_prop user ''email'')
                      then Some (safeString B (get_prop user ''email'')) else None),
             name = (if truthy (get_prop user ''name'')
                     then Some (safeString B (get_prop user ''name'')) else None),
             created = (if truthy (get_prop user ''created'')
                        then Some (safeString B (get_prop user ''created'')) else None),
             updated = (if truthy (get_prop user ''updated'')
                        then Some (safeString B (get_prop user ''updated'')) else None),
             language = (if truthy (get_prop user ''language'')
                         then Some (safeString B (get_prop user ''language'')) else None),
             timezone = (if truthy (get_prop user ''timezone'')
                         then Some (safeString B (get_prop user ''timezone'')) else None),
             week_start = (if get_prop user ''week_start'' \<noteq> JUndefined
                           then Some (Number_js B (get_prop user ''week_start'')) else None),
             email_reminders_enabled =
               (if get_prop user ''email_reminders_enabled'' \<noteq> JUndefined
                then Some (truthy (get_prop user ''email_reminders_enabled'')) else None),
             overdue_tasks_reminders_enabled =
               (if get_prop user ''overdue_tasks_reminders_enabled'' \<noteq> JUndefined
                then Some (truthy (get_prop user ''overdue_tasks_reminders_enabled''))
                else None)\<rparr>)"

section \<open>The webhook event cache\<close>

text \<open>
  The two module variables \<open>cachedEvents\<close> and \<open>cacheExpiry\<close>, \<open>None\<close> for \<open>null\<close>.
  A date is its time value in milliseconds.
\<close>

record cache =
  cachedEvents :: "string list option"
  cacheExpiry :: "int option"

definition CACHE_DURATION_MS :: int where
  "CACHE_DURATION_MS = 5 * 60 * 1000"

definition clearWebhookEventCache :: "cache \<Rightarrow> cache" where
  "clearWebhookEventCache c = c\<lparr>cachedEvents := None, cacheExpiry := None\<rparr>"

definition expireWebhookEventCache :: "cache \<Rightarrow> cache" where
  "expireWebhookEventCache c = c\<lparr>cacheExpiry := Some 0\<rparr>"

text \<open>
  The default event list. The source writes the same literal twice, once for an
  endpoint that is not available and once for a failed fetch with nothing cached.
\<close>

definition default_events :: "string list" where
  "default_events =
     [''task.created'', ''task.updated'', ''task.deleted'', ''task.assigned'',
      ''task.comment.created'', ''project.created'', ''project.updated'',
      ''project.deleted'', ''project.shared'', ''team.created'', ''team.deleted'']"

text \<open>
  What the outside does on one read: \<open>authManager.getSession()\<close> throws, \<open>fetch\<close>
  throws, or a response arrives. \<open>response.json()\<close> either throws or yields the body,
  which the source casts to \<open>string[]\<close>; the model takes the cast at its word.
  \<open>response.ok\<close> is the Fetch API's flag for a status from 200 to 299.
\<close>

record response =
  status :: nat
  statusText :: string
  json :: "exn + string list"

datatype fetch_outcome =
    SessionThrows exn
  | FetchThrows exn
  | Responds response

definition ok :: "response \<Rightarrow> bool" where
  "ok r = (200 \<le> status r \<and> status r \<le> 299)"

text \<open>
  The body of the \<open>try\<close> block: \<open>Inl\<close> is what it throws, and the cache comes back as
  the block left it.
\<close>

definition fetch_events :: "int \<Rightarrow> fetch_outcome \<Rightarrow> cache \<Rightarrow> (exn + string list) \<times> cache" where
  "fetch_events now oc c =
     (case oc of
        SessionThrows e \<Rightarrow> (Inl e, c)
      | FetchThrows e \<Rightarrow> (Inl e, c)
      | Responds r \<Rightarrow>
          if \<not> ok r then
            (if status r = 401 \<or> status r = 403 \<or> status r = 404 then
               (Inr default_events,
                c\<lparr>cachedEvents := Some default_events,
                  cacheExpiry := Some (now + CACHE_DURATION_MS)\<rparr>)
             else (Inl (Error (''Failed to fetch webhook events: '' @ statusText r)), c))
          else
            (case json r of
               Inl e \<Rightarrow> (Inl e, c)
             | Inr evs \<Rightarrow>
                 (Inr evs,
                  c\<lparr>cachedEvents := Some evs,
                    cacheExpiry := Some (now + CACHE_DURATION_MS)\<rparr>)))"

text \<open>
  The \<open>try\<close> block with its \<open>catch\<close>: on a throw, the cached events if there are
  any, else the default list with a new expiry.
\<close>

definition refetch_events :: "int \<Rightarrow> fetch_outcome \<Rightarrow> cache \<Rightarrow> (exn + string list) \<times> cache" where
  "refetch_events now oc c =
     (case fetch_events now oc c of
        (Inr evs, c') \<Rightarrow> (Inr evs, c')
      | (Inl error, c') \<Rightarrow>
          (case cachedEvents c' of
             Some evs \<Rightarrow> (Inr evs, c')
           | None \<Rightarrow>
               (Inr default_events,
                c'\<lparr>cachedEvents := Some default_events,
                   cacheExpiry := Some (now + CACHE_DURATION_MS)\<rparr>)))"

text \<open>
  \<open>getValidEvents\<close>: the cached events while both variables are set and the expiry is
  after now, a refetch otherwise. The result is a sum because the function is a
  promise that may reject; \<open>Inl\<close> would be the rejection.
\<close>

definition getValidEvents :: "int \<Rightarrow> fetch_outcome \<Rightarrow> cache \<Rightarrow> (exn + string list) \<times> cache" where
  "getValidEvents now oc c =
     (case cachedEvents c of
        None \<Rightarrow> refetch_events now oc c
      | Some evs \<Rightarrow>
          (case cacheExpiry c of
             None \<Rightarrow> refetch_events now oc c
           | Some expiry \<Rightarrow>
               if expiry > now then (Inr evs, c) else refetch_events now oc c))"

text \<open>
  The three states of the cache, read off the two variables: no events cached, events
  cached with an expiry after now, events cached otherwise.
\<close>

datatype cache_state = Empty | Stale | Fresh

definition cache_state :: "int \<Rightarrow> cache \<Rightarrow> cache_state" where
  "cache_state now c =
     (case cachedEvents c of
        None \<Rightarrow> Empty
      | Some evs \<Rightarrow>
          (case cacheExpiry c of
             None \<Rightarrow> Stale
           | Some expiry \<Rightarrow> if expiry > now then Fresh else Stale))"

text \<open>
  The outcomes on which the \<open>try\<close> block throws: a throw of the session provider or
  of \<open>fetch\<close>, a status outside 200 to 299 other than 401, 403 and 404, and a body
  that \<open>response.json()\<close> rejects.
\<close>

fun fetch_throws :: "fetch_outcome \<Rightarrow> bool" where
  "fetch_throws (SessionThrows e) = True"
| "fetch_throws (FetchThrows e) = True"
| "fetch_throws (Responds r) =
     (if ok r then isl (json r)
      else status r \<noteq> 401 \<and> status r \<noteq> 403 \<and> status r \<noteq> 404)"

text \<open>\<open>Array.prototype.join\<close> and \<open>Array.prototype.includes\<close> on lists of strings.\<close>

fun join :: "string \<Rightarrow> string list \<Rightarrow> string" where
  "join sep [] = []"
| "join sep [x] = x"
| "join sep (x # y # ys) = x @ sep @ join sep (y # ys)"

fun includes' :: "string list \<Rightarrow> string \<Rightarrow> bool" where
  "includes' [] x = False"
| "includes' (y # ys) x = (y = x \<or> includes' ys x)"

definition validateWebhookEvents ::
  "int \<Rightarrow> fetch_outcome \<Rightarrow> cache \<Rightarrow> string list \<Rightarrow> (exn + unit) \<times> cache" where
  "validateWebhookEvents now oc c events =
     (case getValidEvents now oc c of
        (Inl e, c') \<Rightarrow> (Inl e, c')
      | (Inr validEvents, c') \<Rightarrow>
          let invalidEvents = filter (\<lambda>event. \<not> includes' validEvents event) events in
          if length invalidEvents > 0 then
            (Inl (new_MCPError VALIDATION_ERROR
                   (''Invalid webhook events: '' @ join '', '' invalidEvents
                    @ ''. Valid events are: '' @ join '', '' validEvents)), c')
          else (Inr (), c'))"

text \<open>
  The check of a response that is not ok in the webhooks tool (the \<open>list\<close> branch; the
  other branches differ in the verb of the last message only). \<open>errorMessage\<close> is
  \<open>errorData.message\<close>, \<open>None\<close> when it is missing or null.
\<close>

definition webhooks_list_not_ok :: "nat \<Rightarrow> string \<Rightarrow> string option \<Rightarrow> exn" where
  "webhooks_list_not_ok st stText errorMessage =
     (if st = 401 \<or> st = 403 then
        new_MCPError API_ERROR
          ''Webhook operations require additional permissions. Please ensure your API token has webhook access rights.''
      else
        new_MCPError API_ERROR
          (case errorMessage of
             Some m \<Rightarrow> if m \<noteq> [] then m else ''Failed to list webhooks: '' @ stText
           | None \<Rightarrow> ''Failed to list webhooks: '' @ stText))"

text \<open>The \<open>catch\<close> block of the webhooks tool: what it throws for a caught error.\<close>

definition webhooks_catch :: "exn \<Rightarrow> exn" where
  "webhooks_catch error =
     (if error_kind error \<noteq> None then error
      else if instanceof_Error error then
        new_MCPError API_ERROR (''Webhook operation failed: '' @ error_message error)
      else
        new_MCPError INTERNAL_ERROR ''An unexpected error occurred during webhook operation'')"

section \<open>The shared classifiers\<close>

text \<open>
  Modelled from the spec: \<open>handleStatusCodeError\<close>, the status-code classifier that
  the teams tool calls, is imported from \<open>../utils/error-handler\<close>, which is not
  among the sources. It is modelled as the specification's \<open>classifyStatus\<close>: 401 is
  \<open>AuthRequired\<close>, 403 is \<open>PermissionDenied\<close>, 404 is \<open>NotFound\<close>, 400 and 422 are
  \<open>ValidationError\<close>, everything else is \<open>ApiError\<close>; the error carries the given message
  and the given context.
\<close>

definition classifyStatus :: "nat \<Rightarrow> string \<Rightarrow> (string \<times> jsval) list \<Rightarrow> exn" where
  "classifyStatus st msg ctx =
     MCPError
       (if st = 401 then AUTH_REQUIRED
        else if st = 403 then PERMISSION_DENIED
        else if st = 404 then NOT_FOUND
        else if st = 400 \<or> st = 422 then VALIDATION_ERROR
        else API_ERROR)
       msg ctx"

text \<open>
  Modelled from the spec: \<open>wrapToolError\<close>, the generic wrapper that the teams and
  labels tools throw the result of, is imported from \<open>../utils/error-handler\<close>, which
  is not among the sources. By the specification a taxonomy error passes unchanged;
  any other failure becomes an \<open>ApiError\<close>, or an \<open>InternalError\<close> when it has no message,
  whose message embeds the operation, the entity id and the original message. The
  specification does not give the wording: it is the parameter \<open>fmt\<close>.
\<close>

definition wrapToolError ::
  "(string \<Rightarrow> string \<Rightarrow> jsval \<Rightarrow> string \<Rightarrow> string) \<Rightarrow> exn \<Rightarrow> string \<Rightarrow> string \<Rightarrow> jsval \<Rightarrow> exn" where
  "wrapToolError fmt error toolName operation entityId =
     (if error_kind error \<noteq> None then error
      else if instanceof_Error error then
        new_MCPError API_ERROR (fmt toolName operation entityId (error_message error))
      else new_MCPError INTERNAL_ERROR (fmt toolName operation entityId []))"

text \<open>
  The \<open>catch\<close> blocks of the teams and labels tools: each throws what
  \<open>wrapToolError\<close> returns. \<open>sub\<close> is the subcommand as text, \<open>entityId\<close> is \<open>args.id\<close>.
\<close>

definition teams_catch ::
  "(string \<Rightarrow> string \<Rightarrow> jsval \<Rightarrow> string \<Rightarrow> string) \<Rightarrow> exn \<Rightarrow> string \<Rightarrow> jsval \<Rightarrow> exn" where
  "teams_catch fmt error sub entityId =
     wrapToolError fmt error ''vikunja_teams'' (sub @ '' team'') entityId"

definition labels_catch ::
  "(string \<Rightarrow> string \<Rightarrow> jsval \<Rightarrow> string \<Rightarrow> string) \<Rightarrow> exn \<Rightarrow> string \<Rightarrow> jsval \<Rightarrow> exn" where
  "labels_catch fmt error sub entityId =
     wrapToolError fmt error ''vikunja_labels'' (sub @ '' label'') entityId"

section \<open>The users tool\<close>

text \<open>
  The arguments as the schema types them; \<open>None\<close> is \<open>undefined\<close>. Fields whose names
  are taken by the \<open>User\<close> record carry a prime.
\<close>

datatype Subcommand = Current | Search | Settings | UpdateSettings

fun subcommand_text :: "Subcommand \<Rightarrow> string" where
  "subcommand_text Current = ''current''"
| "subcommand_text Search = ''search''"
| "subcommand_text Settings = ''settings''"
| "subcommand_text UpdateSettings = ''update-settings''"

record UsersArgs =
  subcommand :: Subcommand
  search :: "string option"
  page :: "rat option"
  perPage :: "rat option"
  name' :: "string option"
  language' :: "string option"
  timezone' :: "string option"
  weekStart :: "rat option"
  frontendSettings :: "(string \<times> jsval) list option"
  emailRemindersEnabled :: "bool option"
  overdueTasksRemindersEnabled :: "bool option"
  overdueTasksRemindersTime :: "string option"

text \<open>\<open>SearchParams\<close>, and the \<open>paramsMetadata\<close> echoed in the response.\<close>

record SearchParams =
  page' :: "rat option"
  per_page :: "rat option"
  s' :: "string option"

record ParamsMetadata =
  meta_search :: "string option"
  meta_page :: "rat option"
  meta_perPage :: "rat option"

text \<open>The \<open>settings\<close> object sent to \<open>updateGeneralSettings\<close>; a key not set is \<open>None\<close>.\<close>

record ExtendedUserSettings =
  set_name :: "string option"
  set_language :: "string option"
  set_timezone :: "string option"
  set_week_start :: "rat option"
  set_frontend_settings :: "(string \<times> jsval) list option"
  set_email_reminders_enabled :: "bool option"
  set_overdue_tasks_reminders_enabled :: "bool option"
  set_overdue_tasks_reminders_time :: "string option"

text \<open>The object the \<open>settings\<close> subcommand answers with.\<close>

record SettingsView =
  view_id :: jsnum
  view_username :: string
  view_email :: "string option"
  view_name :: "string option"
  view_language :: "string option"
  view_timezone :: "string option"
  view_weekStart :: "jsnum option"
  view_frontendSettings :: jsval
  view_emailRemindersEnabled :: "bool option"
  view_overdueTasksRemindersEnabled :: "bool option"
  view_overdueTasksRemindersTime :: "string option"

text \<open>
  A reply is the text \<open>formatAorpAsMarkdown(createStandardResponse(...))\<close>. Both
  functions live outside the sources; the reply is kept as the four arguments of
  \<open>createStandardResponse\<close>. \<open>ReturnsUndefined\<close> is the handler falling off its end.
\<close>

datatype ResponseData =
    UserData User
  | UsersData "User list"
  | SettingsData SettingsView

datatype ResponseMetadata =
    NoMetadata
  | SearchMetadata nat ParamsMetadata
  | AffectedFields "string list"

record StandardResponse =
  operation :: string
  summary :: string
  data :: ResponseData
  metadata :: ResponseMetadata

datatype reply = Reply StandardResponse | ReturnsUndefined

text \<open>
  The collaborators. Every call made on the way is appended to a log; what the client
  answers may depend on the calls made before. \<open>getClientFromContext\<close> and
  \<open>updateGeneralSettings\<close> are \<open>Some e\<close> when they throw \<open>e\<close>. \<open>handleAuthError\<close> lives
  outside the sources: \<open>Some e\<close> when it throws \<open>e\<close>, \<open>None\<close> when it returns.
\<close>

datatype api_call =
    GetClientFromContext
  | GetUser
  | GetUsers SearchParams
  | UpdateGeneralSettings ExtendedUserSettings

record deps =
  isAuthenticated :: bool
  getAuthType :: string
  getClientFromContext :: "exn option"
  getUser :: "api_call list \<Rightarrow> exn + jsval"
  getUsers :: "api_call list \<Rightarrow> SearchParams \<Rightarrow> exn + jsval list"
  updateGeneralSettings :: "api_call list \<Rightarrow> ExtendedUserSettings \<Rightarrow> exn option"
  handleAuthError :: "exn \<Rightarrow> string \<Rightarrow> string \<Rightarrow> exn option"

text \<open>\<open>users.map(transformUser)\<close>: the first element that throws ends the map.\<close>

fun map_transformUser :: "builtins \<Rightarrow> jsval list \<Rightarrow> exn + User list" where
  "map_transformUser B [] = Inr []"
| "map_transformUser B (x # xs) =
     (case transformUser B x of
        Inl e \<Rightarrow> Inl e
      | Inr u \<Rightarrow>
          (case map_transformUser B xs of Inl e \<Rightarrow> Inl e | Inr us \<Rightarrow> Inr (u # us)))"

text \<open>A string that is present and not empty: \<open>v && { k: v }\<close> on an optional string.\<close>

fun truthy_string :: "string option \<Rightarrow> bool" where
  "truthy_string None = False"
| "truthy_string (Some v) = (v \<noteq> [])"

definition users_current :: "builtins \<Rightarrow> deps \<Rightarrow> api_call list \<Rightarrow> (exn + reply) \<times> api_call list" where
  "users_current B E calls =
     (case getUser E calls of
        Inl e \<Rightarrow> (Inl e, calls @ [GetUser])
      | Inr rawUser \<Rightarrow>
          (case transformUser B rawUser of
             Inl e \<Rightarrow> (Inl e, calls @ [GetUser])
           | Inr enhancedUser \<Rightarrow>
               (Inr (Reply \<lparr>operation = ''get-current-user'',
                            summary = ''Current user retrieved successfully'',
                            data = UserData enhancedUser,
                            metadata = NoMetadata\<rparr>),
                calls @ [GetUser])))"

definition users_search ::
  "builtins \<Rightarrow> deps \<Rightarrow> UsersArgs \<Rightarrow> api_call list \<Rightarrow> (exn + reply) \<times> api_call list" where
  "users_search B E args calls =
     (let params = \<lparr>page' = page args, per_page = perPage args, s' = search args\<rparr> in
      case getUsers E calls params of
        Inl e \<Rightarrow> (Inl e, calls @ [GetUsers params])
      | Inr users \<Rightarrow>
          let paramsMetadata =
                \<lparr>meta_search = search args, meta_page = page args, meta_perPage = perPage args\<rparr>
          in
          (case map_transformUser B users of
             Inl e \<Rightarrow> (Inl e, calls @ [GetUsers params])
           | Inr us \<Rightarrow>
               (Inr (Reply \<lparr>operation = ''search-users'',
                            summary = ''Found ''
                              @ NumberToString B (Finite (of_nat (length users))) @ '' users'',
                            data = UsersData us,
                            metadata = SearchMetadata (length users) paramsMetadata\<rparr>),
                calls @ [GetUsers params])))"

definition users_settings :: "builtins \<Rightarrow> deps \<Rightarrow> api_call list \<Rightarrow> (exn + reply) \<times> api_call list" where
  "users_settings B E calls =
     (case getUser E calls of
        Inl e \<Rightarrow> (Inl e, calls @ [GetUser])
      | Inr rawUser \<Rightarrow>
          (case transformUser B rawUser of
             Inl e \<Rightarrow> (Inl e, calls @ [GetUser])
           | Inr user \<Rightarrow>
               let settings =
                     \<lparr>view_id = id' user,
                      view_username = username user,
                      view_email = (if truthy_string (email user) then email user else None),
                      view_name = (if truthy_string (name user) then name user else None),
                      view_language =
                        (if truthy_string (language user) then language user else None),
                      view_timezone =
                        (if truthy_string (timezone user) then timezone user else None),
                      view_weekStart = week_start user,
                      view_frontendSettings =
                        (if truthy (frontend_settings user) then frontend_settings user
                         else JObj []),
                      view_emailRemindersEnabled = email_reminders_enabled user,
                      view_overdueTasksRemindersEnabled = overdue_tasks_reminders_enabled user,
                      view_overdueTasksRemindersTime = None\<rparr>
               in
               (Inr (Reply \<lparr>operation = ''get-user-settings'',
                            summary = ''User settings retrieved successfully'',
                            data = SettingsData settings,
                            metadata = NoMetadata\<rparr>),
                calls @ [GetUser])))"

text \<open>
  The guard of \<open>update-settings\<close>: the three strings \<open>name\<close>, \<open>language\<close> and
  \<open>timezone\<close> and the object are tested for truthiness, the other four against
  \<open>undefined\<close>. An object is always truthy.
\<close>

definition no_setting_field :: "UsersArgs \<Rightarrow> bool" where
  "no_setting_field args =
     (\<not> truthy_string (name' args) \<and>
      \<not> truthy_string (language' args) \<and>
      \<not> truthy_string (timezone' args) \<and>
      weekStart args = None \<and>
      \<not> (frontendSettings args \<noteq> None) \<and>
      emailRemindersEnabled args = None \<and>
      overdueTasksRemindersEnabled args = None \<and>
      overdueTasksRemindersTime args = None)"

definition users_update_settings ::
  "builtins \<Rightarrow> deps \<Rightarrow> UsersArgs \<Rightarrow> api_call list \<Rightarrow> (exn + reply) \<times> api_call list" where
  "users_update_settings B E args calls =
     (if no_setting_field args then
        (Inl (new_MCPError VALIDATION_ERROR ''At least one setting field is required''), calls)
      else
        let settings =
              \<lparr>set_name = name' args,
               set_language = language' args,
               set_timezone = timezone' args,
               set_week_start = weekStart args,
               set_frontend_settings = frontendSettings args,
               set_email_reminders_enabled = emailRemindersEnabled args,
               set_overdue_tasks_reminders_enabled = overdueTasksRemindersEnabled args,
               set_overdue_tasks_reminders_time = overdueTasksRemindersTime args\<rparr>;
            affectedFields =
              (if name' args \<noteq> None then [''name''] else [])
              @ (if language' args \<noteq> None then [''language''] else [])
              @ (if timezone' args \<noteq> None then [''timezone''] else [])
              @ (if weekStart args \<noteq> None then [''weekStart''] else [])
              @ (if frontendSettings args \<noteq> None then [''frontendSettings''] else [])
              @ (if emailRemindersEnabled args \<noteq> None then [''emailRemindersEnabled''] else [])
              @ (if overdueTasksRemindersEnabled args \<noteq> None
                 then [''overdueTasksRemindersEnabled''] else [])
              @ (if overdueTasksRemindersTime args \<noteq> None
                 then [''overdueTasksRemindersTime''] else []);
            calls1 = calls @ [UpdateGeneralSettings settings]
        in
        case updateGeneralSettings E calls settings of
          Some e \<Rightarrow> (Inl e, calls1)
        | None \<Rightarrow>
            (case getUser E calls1 of
               Inl e \<Rightarrow> (Inl e, calls1 @ [GetUser])
             | Inr rawUpdatedUser \<Rightarrow>
                 (case transformUser B rawUpdatedUser of
                    Inl e \<Rightarrow> (Inl e, calls1 @ [GetUser])
                  | Inr updatedUser \<Rightarrow>
                      (Inr (Reply \<lparr>operation = ''update-user-settings'',
                                   summary = ''User settings updated successfully'',
                                   data = UserData updatedUser,
                                   metadata = AffectedFields affectedFields\<rparr>),
                       calls1 @ [GetUser]))))"

text \<open>The \<open>switch\<close> inside the \<open>try\<close> block.\<close>

definition users_try ::
  "builtins \<Rightarrow> deps \<Rightarrow> UsersArgs \<Rightarrow> api_call list \<Rightarrow> (exn + reply) \<times> api_call list" where
  "users_try B E args calls =
     (case subcommand args of
        Current \<Rightarrow> users_current B E calls
      | Search \<Rightarrow> users_search B E args calls
      | Settings \<Rightarrow> users_settings B E calls
      | UpdateSettings \<Rightarrow> users_update_settings B E args calls)"

text \<open>
  The \<open>catch\<close> block: an \<open>MCPError\<close> is thrown again as it is; anything else goes to
  \<open>handleAuthError\<close>, and if that returns, the handler returns nothing.
\<close>

definition users_catch :: "deps \<Rightarrow> UsersArgs \<Rightarrow> exn \<Rightarrow> exn + reply" where
  "users_catch E args error =
     (if error_kind error \<noteq> None then Inl error
      else
        (case handleAuthError E error
                (''user.'' @ subcommand_text (subcommand args))
                (''User operation error: ''
                 @ (if instanceof_Error error then error_message error
                    else (case error of NonError txt \<Rightarrow> txt | _ \<Rightarrow> error_message error))) of
           Some e \<Rightarrow> Inl e
         | None \<Rightarrow> Inr ReturnsUndefined))"

text \<open>The handler of \<open>vikunja_users\<close>: the result and the calls it made.\<close>

definition users_tool :: "builtins \<Rightarrow> deps \<Rightarrow> UsersArgs \<Rightarrow> (exn + reply) \<times> api_call list" where
  "users_tool B E args =
     (if \<not> isAuthenticated E then
        (Inl (new_MCPError AUTH_REQUIRED
               ''Authentication required. Please use vikunja_auth.connect first.''), [])
      else if getAuthType E \<noteq> ''jwt'' then
        (Inl (new_MCPError PERMISSION_DENIED
               ''User operations require JWT authentication. Please reconnect using vikunja_auth.connect with JWT authentication.''), [])
      else
        (case getClientFromContext E of
           Some e \<Rightarrow> (Inl e, [GetClientFromContext])
         | None \<Rightarrow>
             (case users_try B E args [GetClientFromContext] of
                (Inr r, calls) \<Rightarrow> (Inr r, calls)
              | (Inl error, calls) \<Rightarrow> (users_catch E args error, calls))))"

text \<open>
  Collaborators for closed examples: an authenticated session of the given type and a
  client whose calls all succeed, \<open>getUser\<close> answering a user with id 1.
\<close>

definition example_deps :: "string \<Rightarrow> deps" where
  "example_deps authType =
     \<lparr>isAuthenticated = True,
      getAuthType = authType,
      getClientFromContext = None,
      getUser = (\<lambda>calls. Inr (JObj [(''id'', JNum (Finite 1)), (''username'', JStr ''u'')])),
      getUsers = (\<lambda>calls params. Inr []),
      updateGeneralSettings = (\<lambda>calls settings. None),
      handleAuthError = (\<lambda>error opName msg. Some (new_MCPError API_ERROR msg))\<rparr>"

definition no_args :: "Subcommand \<Rightarrow> UsersArgs" where
  "no_args sub =
     \<lparr>subcommand = sub, search = None, page = None, perPage = None,
      name' = None, language' = None, timezone' = None, weekStart = None,
      frontendSettings = None, emailRemindersEnabled = None,
      overdueTasksRemindersEnabled = None, overdueTasksRemindersTime = None\<rparr>"


section \<open>Properties of the sanitizer\<close>














section \<open>Properties of the cache\<close>

lemma fetch_throws_iff:
  "fetch_throws oc \<longleftrightarrow> isl (fst (fetch_events now oc c))"
  by (cases oc) (auto simp add: fetch_events_def split: sum.splits)

lemma fetch_events_throws_keeps:
  "fetch_throws oc \<Longrightarrow> snd (fetch_events now oc c) = c"
  by (cases oc) (auto simp add: fetch_events_def split: sum.splits)

lemma refetch_events_throws:
  assumes "fetch_throws oc"
  shows "refetch_events now oc c =
     (case cachedEvents c of
        Some evs \<Rightarrow> (Inr evs, c)
      | None \<Rightarrow> (Inr default_events,
                 c\<lparr>cachedEvents := Some default_events,
                   cacheExpiry := Some (now + CACHE_DURATION_MS)\<rparr>))"
proof -
  obtain e where "fetch_events now oc c = (Inl e, c)"
    using assms fetch_throws_iff [of oc now c] fetch_events_throws_keeps [of oc now c]
    by (cases "fetch_events now oc c") (auto simp add: isl_def)
  then show ?thesis by (simp add: refetch_events_def)
qed

lemma refetch_events_not_available:
  assumes "status r = 401 \<or> status r = 403 \<or> status r = 404"
  shows "refetch_events now (Responds r) c =
     (Inr default_events,
      c\<lparr>cachedEvents := Some default_events, cacheExpiry := Some (now + CACHE_DURATION_MS)\<rparr>)"
  using assms by (auto simp add: refetch_events_def fetch_events_def ok_def)

lemma refetch_events_success:
  assumes "ok r" "json r = Inr evs"
  shows "refetch_events now (Responds r) c =
     (Inr evs, c\<lparr>cachedEvents := Some evs, cacheExpiry := Some (now + CACHE_DURATION_MS)\<rparr>)"
  using assms by (simp add: refetch_events_def fetch_events_def)

lemma fetch_outcome_cases:
  "fetch_throws oc
   \<or> (\<exists>r. oc = Responds r \<and> (status r = 401 \<or> status r = 403 \<or> status r = 404))
   \<or> (\<exists>r evs. oc = Responds r \<and> ok r \<and> json r = Inr evs)"
  by (cases oc) (auto simp add: isl_def split: sum.splits, metis sum.exhaust)

lemma default_events_nonempty: "default_events \<noteq> []"
  by (simp add: default_events_def)

lemma refetch_events_returns:
  "\<exists>evs c'. refetch_events now oc c = (Inr evs, c')
     \<and> (evs = [] \<longrightarrow> cachedEvents c = Some []
                      \<or> (\<exists>r. oc = Responds r \<and> ok r \<and> json r = Inr []))"
proof -
  consider (throws) "fetch_throws oc"
    | (na) r where "oc = Responds r" "status r = 401 \<or> status r = 403 \<or> status r = 404"
    | (succ) r evs where "oc = Responds r" "ok r" "json r = Inr evs"
    using fetch_outcome_cases [of oc] by blast
  then show ?thesis
  proof cases
    case throws
    then show ?thesis
      using default_events_nonempty
      by (cases "cachedEvents c") (simp_all add: refetch_events_throws)
  next
    case na
    then show ?thesis
      using default_events_nonempty by (simp add: refetch_events_not_available)
  next
    case succ
    then show ?thesis by (simp add: refetch_events_success)
  qed
qed

lemma getValidEvents_fresh:
  "cache_state now c = Fresh \<Longrightarrow> getValidEvents now oc c = (Inr (the (cachedEvents c)), c)"
  by (auto simp add: cache_state_def getValidEvents_def split: option.splits if_splits)

lemma getValidEvents_refetch:
  "cache_state now c \<noteq> Fresh \<Longrightarrow> getValidEvents now oc c = refetch_events now oc c"
  by (auto simp add: cache_state_def getValidEvents_def split: option.splits if_splits)

text \<open>
  C2, as amended. For every time, every cache and every outcome of the fetch,
  \<open>getValidEvents\<close> returns a list and throws nothing; the list is empty only when the
  cache already held the empty list or the upstream answered ok with the empty list.
\<close>

theorem getValidEvents_never_raises:
  "\<exists>evs c'. getValidEvents now oc c = (Inr evs, c')
     \<and> (evs = [] \<longrightarrow> cachedEvents c = Some []
                      \<or> (\<exists>r. oc = Responds r \<and> ok r \<and> json r = Inr []))"
proof (cases "cache_state now c = Fresh")
  case True
  then have "cachedEvents c \<noteq> None"
    by (auto simp add: cache_state_def split: option.splits)
  then show ?thesis using getValidEvents_fresh [OF True, of oc] by auto
next
  case False
  then show ?thesis
    using refetch_events_returns [of now oc c] by (simp add: getValidEvents_refetch)
qed

theorem getValidEvents_never_raises_witness:
  "\<exists>evs c'. getValidEvents 1000 (SessionThrows (Error ''no session''))
               \<lparr>cachedEvents = None, cacheExpiry = None\<rparr> = (Inr evs, c')
     \<and> evs \<noteq> []"
  using getValidEvents_never_raises
    [of 1000 "SessionThrows (Error ''no session'')" "\<lparr>cachedEvents = None, cacheExpiry = None\<rparr>"]
  by auto

text \<open>
  C2 as written fails: with nothing cached and an upstream that answers 200 with
  \<open>[]\<close>, the empty list is stored and returned.
\<close>

theorem getValidEvents_nonempty_counterexample:
  "getValidEvents 1000 (Responds \<lparr>status = 200, statusText = ''OK'', json = Inr []\<rparr>)
     \<lparr>cachedEvents = None, cacheExpiry = None\<rparr>
   = (Inr [], \<lparr>cachedEvents = Some [], cacheExpiry = Some 301000\<rparr>)"
  by (simp add: getValidEvents_def refetch_events_def fetch_events_def ok_def
        CACHE_DURATION_MS_def)

text \<open>
  C3. With events cached and expired, and a fetch that fails otherwise than by a
  401, 403 or 404, \<open>getValidEvents\<close> returns the cached events, and the cache, events
  and expiry, is as it was.
\<close>

theorem stale_fallback_frame:
  "cache_state now c = Stale \<Longrightarrow> cachedEvents c = Some evs \<Longrightarrow> fetch_throws oc \<Longrightarrow>
   getValidEvents now oc c = (Inr evs, c)"
  by (simp add: getValidEvents_refetch refetch_events_throws)

theorem stale_fallback_frame_witness:
  "cache_state 5000 (expireWebhookEventCache
      \<lparr>cachedEvents = Some [''task.created''], cacheExpiry = Some 300000\<rparr>) = Stale
   \<and> fetch_throws (FetchThrows (Error ''network error''))
   \<and> getValidEvents 5000 (FetchThrows (Error ''network error''))
       (expireWebhookEventCache \<lparr>cachedEvents = Some [''task.created''], cacheExpiry = Some 300000\<rparr>)
     = (Inr [''task.created''], \<lparr>cachedEvents = Some [''task.created''], cacheExpiry = Some 0\<rparr>)"
proof -
  let ?c = "expireWebhookEventCache \<lparr>cachedEvents = Some [''task.created''], cacheExpiry = Some 300000\<rparr>"
  have 1: "cache_state 5000 ?c = Stale"
    by (simp add: cache_state_def expireWebhookEventCache_def)
  have 2: "cachedEvents ?c = Some [''task.created'']"
    by (simp add: expireWebhookEventCache_def)
  have 3: "fetch_throws (FetchThrows (Error ''network error''))" by simp
  show ?thesis
    using 1 3 stale_fallback_frame [OF 1 2 3] by (simp add: expireWebhookEventCache_def)
qed

text \<open>
  C4. When a fetch is made (the cache is not fresh) and the response has status 401,
  403 or 404, and when nothing is cached and the fetch throws, \<open>getValidEvents\<close>
  stores and returns the default list, with the expiry five minutes after now. The
  default list has 11 items.
\<close>

theorem static_default_fallback:
  "(cache_state now c \<noteq> Fresh \<and> (status r = 401 \<or> status r = 403 \<or> status r = 404)
      \<longrightarrow> getValidEvents now (Responds r) c
            = (Inr default_events,
               \<lparr>cachedEvents = Some default_events, cacheExpiry = Some (now + 5 * 60 * 1000)\<rparr>))
   \<and> (cache_state now c = Empty \<and> fetch_throws oc
      \<longrightarrow> getValidEvents now oc c
            = (Inr default_events,
               \<lparr>cachedEvents = Some default_events, cacheExpiry = Some (now + 5 * 60 * 1000)\<rparr>))
   \<and> length default_events = 11"
proof (intro conjI impI)
  assume a: "cache_state now c \<noteq> Fresh \<and> (status r = 401 \<or> status r = 403 \<or> status r = 404)"
  then show "getValidEvents now (Responds r) c
            = (Inr default_events,
               \<lparr>cachedEvents = Some default_events, cacheExpiry = Some (now + 5 * 60 * 1000)\<rparr>)"
    by (simp add: getValidEvents_refetch refetch_events_not_available CACHE_DURATION_MS_def)
next
  assume a: "cache_state now c = Empty \<and> fetch_throws oc"
  then have "cachedEvents c = None"
    by (auto simp add: cache_state_def split: option.splits if_splits)
  then show "getValidEvents now oc c
            = (Inr default_events,
               \<lparr>cachedEvents = Some default_events, cacheExpiry = Some (now + 5 * 60 * 1000)\<rparr>)"
    using a by (simp add: getValidEvents_refetch refetch_events_throws CACHE_DURATION_MS_def)
next
  show "length default_events = 11" by (simp add: default_events_def)
qed

theorem static_default_fallback_witness:
  "getValidEvents 1000 (Responds \<lparr>status = 404, statusText = ''Not Found'', json = Inr []\<rparr>)
      \<lparr>cachedEvents = Some [''task.created''], cacheExpiry = Some 0\<rparr>
     = (Inr default_events, \<lparr>cachedEvents = Some default_events, cacheExpiry = Some 301000\<rparr>)
   \<and> getValidEvents 1000 (FetchThrows (Error ''network error''))
      (clearWebhookEventCache \<lparr>cachedEvents = Some [''task.created''], cacheExpiry = Some 0\<rparr>)
     = (Inr default_events, \<lparr>cachedEvents = Some default_events, cacheExpiry = Some 301000\<rparr>)"
proof -
  let ?r = "\<lparr>status = 404, statusText = ''Not Found'', json = Inr []\<rparr>"
  let ?c = "\<lparr>cachedEvents = Some [''task.created''], cacheExpiry = Some 0\<rparr>"
  have 1: "cache_state 1000 ?c \<noteq> Fresh \<and> (status ?r = 401 \<or> status ?r = 403 \<or> status ?r = 404)"
    by (simp add: cache_state_def)
  have 2: "cache_state 1000 (clearWebhookEventCache ?c) = Empty
           \<and> fetch_throws (FetchThrows (Error ''network error''))"
    by (simp add: cache_state_def clearWebhookEventCache_def)
  show ?thesis
    using 1 2 static_default_fallback [of 1000 ?c ?r]
      static_default_fallback [of 1000 "clearWebhookEventCache ?c" ?r "FetchThrows (Error ''network error'')"]
    by simp
qed

section \<open>Properties of validation and classification\<close>

lemma includes'_set: "includes' xs x \<longleftrightarrow> x \<in> set xs"
  by (induction xs) auto

lemma getValidEvents_fst_snd:
  "fst (getValidEvents now oc c) = Inr validEvents \<Longrightarrow>
   getValidEvents now oc c = (Inr validEvents, snd (getValidEvents now oc c))"
  by (cases "getValidEvents now oc c") simp

text \<open>
  C6. Let \<open>validEvents\<close> be what \<open>getValidEvents\<close> returns. If some candidate is not
  among them, \<open>validateWebhookEvents\<close> throws an \<open>MCPError\<close> of kind
  \<open>VALIDATION_ERROR\<close> whose message lists the candidates that are not valid, in their
  order, and then all valid events; if every candidate is among them, it returns.
\<close>

theorem validateWebhookEvents_partition:
  assumes "fst (getValidEvents now oc c) = Inr validEvents"
  shows "((\<exists>e \<in> set events. e \<notin> set validEvents) \<longrightarrow>
            validateWebhookEvents now oc c events
            = (Inl (MCPError VALIDATION_ERROR
                     (''Invalid webhook events: ''
                      @ join '', '' (filter (\<lambda>e. e \<notin> set validEvents) events)
                      @ ''. Valid events are: '' @ join '', '' validEvents) []),
               snd (getValidEvents now oc c)))
       \<and> ((\<forall>e \<in> set events. e \<in> set validEvents) \<longrightarrow>
            validateWebhookEvents now oc c events = (Inr (), snd (getValidEvents now oc c)))"
proof -
  have g: "getValidEvents now oc c = (Inr validEvents, snd (getValidEvents now oc c))"
    using assms by (rule getValidEvents_fst_snd)
  have f: "filter (\<lambda>event. \<not> includes' validEvents event) events
           = filter (\<lambda>e. e \<notin> set validEvents) events"
    by (simp add: includes'_set)
  have v: "validateWebhookEvents now oc c events =
           (if filter (\<lambda>e. e \<notin> set validEvents) events \<noteq> [] then
              (Inl (new_MCPError VALIDATION_ERROR
                     (''Invalid webhook events: ''
                      @ join '', '' (filter (\<lambda>e. e \<notin> set validEvents) events)
                      @ ''. Valid events are: '' @ join '', '' validEvents)),
               snd (getValidEvents now oc c))
            else (Inr (), snd (getValidEvents now oc c)))"
    unfolding validateWebhookEvents_def by (subst g) (simp add: f Let_def)
  have e: "filter (\<lambda>e. e \<notin> set validEvents) events \<noteq> []
           \<longleftrightarrow> (\<exists>e \<in> set events. e \<notin> set validEvents)"
    by (simp add: filter_empty_conv)
  show ?thesis
    unfolding v e by (auto simp add: new_MCPError_def)
qed

theorem validateWebhookEvents_partition_witness:
  "validateWebhookEvents 1000 (FetchThrows (Error ''unused''))
      \<lparr>cachedEvents = Some [''a'', ''b''], cacheExpiry = Some 2000\<rparr> [''a'', ''c'']
     = (Inl (MCPError VALIDATION_ERROR ''Invalid webhook events: c. Valid events are: a, b'' []),
        \<lparr>cachedEvents = Some [''a'', ''b''], cacheExpiry = Some 2000\<rparr>)
   \<and> validateWebhookEvents 1000 (FetchThrows (Error ''unused''))
      \<lparr>cachedEvents = Some [''a'', ''b''], cacheExpiry = Some 2000\<rparr> [''b'', ''a'']
     = (Inr (), \<lparr>cachedEvents = Some [''a'', ''b''], cacheExpiry = Some 2000\<rparr>)"
proof -
  let ?c = "\<lparr>cachedEvents = Some [''a'', ''b''], cacheExpiry = Some 2000\<rparr>"
  let ?oc = "FetchThrows (Error ''unused'')"
  have g: "getValidEvents 1000 ?oc ?c = (Inr [''a'', ''b''], ?c)"
    by (simp add: getValidEvents_def)
  then have h: "fst (getValidEvents 1000 ?oc ?c) = Inr [''a'', ''b'']" by simp
  show ?thesis
    using validateWebhookEvents_partition [OF h, of "[''a'', ''c'']"]
      validateWebhookEvents_partition [OF h, of "[''b'', ''a'']"]
    by (simp add: g)
qed

text \<open>
  The webhooks tool does not go through the classifier: whatever the status of a
  response that is not ok, what it throws is an \<open>API_ERROR\<close>.
\<close>

lemma webhooks_list_not_ok_kind:
  "error_kind (webhooks_list_not_ok st stText errorMessage) = Some API_ERROR"
  by (simp add: webhooks_list_not_ok_def new_MCPError_def)

text \<open>
  C5. The status classifier maps 401 to \<open>AuthRequired\<close>, 403 to \<open>PermissionDenied\<close>,
  404 to \<open>NotFound\<close>, 400 and 422 to \<open>ValidationError\<close> and every other status to
  \<open>ApiError\<close>, and keeps the message; \<open>classifyStatus(403, "forbidden", {entityId: 7})\<close> is
  a \<open>PermissionDenied\<close> whose context holds \<open>entityId: 7\<close>.
\<close>

theorem classifyStatus_mapping:
  "(st = 401 \<longrightarrow> error_kind (classifyStatus st msg ctx) = Some AUTH_REQUIRED)
   \<and> (st = 403 \<longrightarrow> error_kind (classifyStatus st msg ctx) = Some PERMISSION_DENIED)
   \<and> (st = 404 \<longrightarrow> error_kind (classifyStatus st msg ctx) = Some NOT_FOUND)
   \<and> (st = 400 \<or> st = 422 \<longrightarrow> error_kind (classifyStatus st msg ctx) = Some VALIDATION_ERROR)
   \<and> (st \<noteq> 401 \<and> st \<noteq> 403 \<and> st \<noteq> 404 \<and> st \<noteq> 400 \<and> st \<noteq> 422
        \<longrightarrow> error_kind (classifyStatus st msg ctx) = Some API_ERROR)
   \<and> error_message (classifyStatus st msg ctx) = msg
   \<and> classifyStatus 403 ''forbidden'' [(''entityId'', JNum (Finite 7))]
       = MCPError PERMISSION_DENIED ''forbidden'' [(''entityId'', JNum (Finite 7))]"
  by (simp add: classifyStatus_def)

theorem classifyStatus_mapping_witness:
  "error_kind (classifyStatus 401 ''unauthorized'' []) = Some AUTH_REQUIRED
   \<and> error_kind (classifyStatus 403 ''forbidden'' []) = Some PERMISSION_DENIED
   \<and> error_kind (classifyStatus 404 ''missing'' []) = Some NOT_FOUND
   \<and> error_kind (classifyStatus 400 ''bad'' []) = Some VALIDATION_ERROR
   \<and> error_kind (classifyStatus 422 ''bad'' []) = Some VALIDATION_ERROR
   \<and> error_kind (classifyStatus 500 ''down'' []) = Some API_ERROR"
  using classifyStatus_mapping [of 401 "''unauthorized''" "[]"]
    classifyStatus_mapping [of 403 "''forbidden''" "[]"]
    classifyStatus_mapping [of 404 "''missing''" "[]"]
    classifyStatus_mapping [of 400 "''bad''" "[]"]
    classifyStatus_mapping [of 422 "''bad''" "[]"]
    classifyStatus_mapping [of 500 "''down''" "[]"]
  by simp

section \<open>Properties of the error boundaries\<close>

lemma webhooks_catch_classified: "error_kind (webhooks_catch e) \<noteq> None"
  by (cases e) (simp_all add: webhooks_catch_def new_MCPError_def)

lemma wrapToolError_classified: "error_kind (wrapToolError fmt e t op i) \<noteq> None"
  by (cases e) (simp_all add: wrapToolError_def new_MCPError_def)

lemma wrapToolError_passes_classified:
  "wrapToolError fmt (MCPError k m ctx) t op i = MCPError k m ctx"
  "teams_catch fmt (MCPError k m ctx) sub i = MCPError k m ctx"
  "labels_catch fmt (MCPError k m ctx) sub i = MCPError k m ctx"
  by (simp_all add: wrapToolError_def teams_catch_def labels_catch_def)

lemma wrapToolError_idempotent:
  "wrapToolError fmt (wrapToolError fmt e t op i) t' op' i' = wrapToolError fmt e t op i"
  using wrapToolError_classified [of fmt e t op i] by (subst wrapToolError_def) simp

text \<open>
  C7. An \<open>MCPError\<close> that reaches the \<open>catch\<close> block of the webhooks tool or of the
  users tool is thrown again as it is, with its kind, message and context; what the
  webhooks \<open>catch\<close> block throws is always an \<open>MCPError\<close>, so passing a failure through
  it twice gives what passing it once gives.
\<close>

theorem classified_errors_pass_unchanged:
  "webhooks_catch (MCPError k m ctx) = MCPError k m ctx
   \<and> users_catch E args (MCPError k m ctx) = Inl (MCPError k m ctx)
   \<and> error_kind (webhooks_catch e) \<noteq> None
   \<and> webhooks_catch (webhooks_catch e) = webhooks_catch e"
proof -
  have 1: "webhooks_catch (webhooks_catch e) = webhooks_catch e"
    using webhooks_catch_classified [of e] by (subst webhooks_catch_def) simp
  show ?thesis
    using 1 webhooks_catch_classified [of e]
    by (simp add: webhooks_catch_def users_catch_def)
qed

theorem classified_errors_pass_unchanged_witness:
  "webhooks_catch (MCPError NOT_FOUND ''Webhook with ID 3 not found in project 1'' [])
     = MCPError NOT_FOUND ''Webhook with ID 3 not found in project 1'' []
   \<and> users_catch (example_deps ''jwt'') (no_args UpdateSettings)
       (MCPError VALIDATION_ERROR ''At least one setting field is required'' [])
     = Inl (MCPError VALIDATION_ERROR ''At least one setting field is required'' [])
   \<and> webhooks_catch (webhooks_catch (Error ''boom'')) = webhooks_catch (Error ''boom'')"
  using classified_errors_pass_unchanged
    [of NOT_FOUND "''Webhook with ID 3 not found in project 1''" "[]"]
    classified_errors_pass_unchanged
    [of VALIDATION_ERROR "''At least one setting field is required''" "[]"
        "example_deps ''jwt''" "no_args UpdateSettings" "Error ''boom''"]
  by simp

section \<open>Properties of the users tool\<close>

text \<open>
  C9. With an authenticated session whose type is not \<open>jwt\<close>, the users tool throws
  an \<open>MCPError\<close> of kind \<open>PERMISSION_DENIED\<close> and makes no call, whatever the
  arguments and so for each of the four subcommands.
\<close>

theorem users_require_jwt:
  "isAuthenticated E \<Longrightarrow> getAuthType E \<noteq> ''jwt'' \<Longrightarrow>
   users_tool B E args
   = (Inl (MCPError PERMISSION_DENIED
            ''User operations require JWT authentication. Please reconnect using vikunja_auth.connect with JWT authentication.'' []),
      [])"
  by (simp add: users_tool_def new_MCPError_def)

theorem users_require_jwt_witness:
  "isAuthenticated (example_deps ''api-token'')
   \<and> getAuthType (example_deps ''api-token'') \<noteq> ''jwt''
   \<and> users_tool example_builtins (example_deps ''api-token'') (no_args Current)
       = (Inl (MCPError PERMISSION_DENIED
            ''User operations require JWT authentication. Please reconnect using vikunja_auth.connect with JWT authentication.'' []),
          [])
   \<and> users_tool example_builtins (example_deps ''api-token'') (no_args Search)
       = users_tool example_builtins (example_deps ''api-token'') (no_args Current)
   \<and> users_tool example_builtins (example_deps ''api-token'') (no_args Settings)
       = users_tool example_builtins (example_deps ''api-token'') (no_args Current)
   \<and> users_tool example_builtins (example_deps ''api-token'') (no_args UpdateSettings)
       = users_tool example_builtins (example_deps ''api-token'') (no_args Current)"
proof -
  have 1: "isAuthenticated (example_deps ''api-token'')" by (simp add: example_deps_def)
  have 2: "getAuthType (example_deps ''api-token'') \<noteq> ''jwt''" by (simp add: example_deps_def)
  show ?thesis
    using 1 2 users_require_jwt [OF 1 2, of example_builtins "no_args Current"]
      users_require_jwt [OF 1 2, of example_builtins "no_args Search"]
      users_require_jwt [OF 1 2, of example_builtins "no_args Settings"]
      users_require_jwt [OF 1 2, of example_builtins "no_args UpdateSettings"]
    by simp
qed

lemma users_tool_update_settings:
  assumes "isAuthenticated E" "getAuthType E = ''jwt''" "getClientFromContext E = None"
    "subcommand args = UpdateSettings"
  shows "users_tool B E args =
     (case users_update_settings B E args [GetClientFromContext] of
        (Inr r, calls) \<Rightarrow> (Inr r, calls)
      | (Inl error, calls) \<Rightarrow> (users_catch E args error, calls))"
  using assms by (simp add: users_tool_def users_try_def)

lemma users_update_settings_rejects:
  assumes "no_setting_field args"
  shows "users_update_settings B E args calls =
     (Inl (MCPError VALIDATION_ERROR ''At least one setting field is required'' []), calls)"
  using assms by (simp add: users_update_settings_def new_MCPError_def)

lemma users_update_settings_forwards:
  assumes "\<not> no_setting_field args"
  shows "take (Suc (length calls)) (snd (users_update_settings B E args calls)) =
     calls @ [UpdateGeneralSettings
        \<lparr>set_name = name' args,
         set_language = language' args,
         set_timezone = timezone' args,
         set_week_start = weekStart args,
         set_frontend_settings = frontendSettings args,
         set_email_reminders_enabled = emailRemindersEnabled args,
         set_overdue_tasks_reminders_enabled = overdueTasksRemindersEnabled args,
         set_overdue_tasks_reminders_time = overdueTasksRemindersTime args\<rparr>]"
  using assms
  by (simp add: users_update_settings_def Let_def split: option.splits sum.splits split del: if_split)

lemma snd_users_tool_update_settings:
  assumes "isAuthenticated E" "getAuthType E = ''jwt''" "getClientFromContext E = None"
    "subcommand args = UpdateSettings"
  shows "snd (users_tool B E args) = snd (users_update_settings B E args [GetClientFromContext])"
  unfolding users_tool_update_settings [OF assms]
  by (simp split: prod.splits sum.splits)

text \<open>
  C10, as amended. In \<open>update-settings\<close>, when \<open>name\<close>, \<open>language\<close> and \<open>timezone\<close>
  are each absent or the empty string and no other setting is given, the tool throws
  the \<open>VALIDATION_ERROR\<close> \<open>At least one setting field is required\<close> before any call
  to \<open>updateGeneralSettings\<close>. When \<open>weekStart\<close>, \<open>emailRemindersEnabled\<close>,
  \<open>overdueTasksRemindersEnabled\<close>, \<open>frontendSettings\<close> or \<open>overdueTasksRemindersTime\<close>
  is given, whatever its value, or one of the three strings is given and not empty,
  the settings are forwarded to \<open>updateGeneralSettings\<close> with every given field.
\<close>

theorem update_settings_presence:
  assumes "isAuthenticated E" "getAuthType E = ''jwt''" "getClientFromContext E = None"
    "subcommand args = UpdateSettings"
  shows
    "((name' args = None \<or> name' args = Some [])
      \<and> (language' args = None \<or> language' args = Some [])
      \<and> (timezone' args = None \<or> timezone' args = Some [])
      \<and> weekStart args = None \<and> frontendSettings args = None
      \<and> emailRemindersEnabled args = None \<and> overdueTasksRemindersEnabled args = None
      \<and> overdueTasksRemindersTime args = None
      \<longrightarrow> users_tool B E args
          = (Inl (MCPError VALIDATION_ERROR ''At least one setting field is required'' []),
             [GetClientFromContext]))
     \<and> (weekStart args \<noteq> None \<or> emailRemindersEnabled args \<noteq> None
        \<or> overdueTasksRemindersEnabled args \<noteq> None \<or> frontendSettings args \<noteq> None
        \<or> overdueTasksRemindersTime args \<noteq> None
        \<or> (\<exists>v. name' args = Some v \<and> v \<noteq> [])
        \<or> (\<exists>v. language' args = Some v \<and> v \<noteq> [])
        \<or> (\<exists>v. timezone' args = Some v \<and> v \<noteq> [])
      \<longrightarrow> take 2 (snd (users_tool B E args))
          = [GetClientFromContext,
             UpdateGeneralSettings
               \<lparr>set_name = name' args,
                set_language = language' args,
                set_timezone = timezone' args,
                set_week_start = weekStart args,
                set_frontend_settings = frontendSettings args,
                set_email_reminders_enabled = emailRemindersEnabled args,
                set_overdue_tasks_reminders_enabled = overdueTasksRemindersEnabled args,
                set_overdue_tasks_reminders_time = overdueTasksRemindersTime args\<rparr>])"
proof (intro conjI impI)
  assume "(name' args = None \<or> name' args = Some [])
      \<and> (language' args = None \<or> language' args = Some [])
      \<and> (timezone' args = None \<or> timezone' args = Some [])
      \<and> weekStart args = None \<and> frontendSettings args = None
      \<and> emailRemindersEnabled args = None \<and> overdueTasksRemindersEnabled args = None
      \<and> overdueTasksRemindersTime args = None"
  then have "no_setting_field args"
    by (auto simp add: no_setting_field_def)
  then show "users_tool B E args
          = (Inl (MCPError VALIDATION_ERROR ''At least one setting field is required'' []),
             [GetClientFromContext])"
    by (simp add: users_tool_update_settings [OF assms] users_update_settings_rejects
          users_catch_def)
next
  assume "weekStart args \<noteq> None \<or> emailRemindersEnabled args \<noteq> None
        \<or> overdueTasksRemindersEnabled args \<noteq> None \<or> frontendSettings args \<noteq> None
        \<or> overdueTasksRemindersTime args \<noteq> None
        \<or> (\<exists>v. name' args = Some v \<and> v \<noteq> [])
        \<or> (\<exists>v. language' args = Some v \<and> v \<noteq> [])
        \<or> (\<exists>v. timezone' args = Some v \<and> v \<noteq> [])"
  then have "\<not> no_setting_field args"
    by (auto simp add: no_setting_field_def)
  then show "take 2 (snd (users_tool B E args))
          = [GetClientFromContext,
             UpdateGeneralSettings
               \<lparr>set_name = name' args,
                set_language = language' args,
                set_timezone = timezone' args,
                set_week_start = weekStart args,
                set_frontend_settings = frontendSettings args,
                set_email_reminders_enabled = emailRemindersEnabled args,
                set_overdue_tasks_reminders_enabled = overdueTasksRemindersEnabled args,
                set_overdue_tasks_reminders_time = overdueTasksRemindersTime args\<rparr>]"
    using users_update_settings_forwards [of args "[GetClientFromContext]" B E]
    by (simp add: snd_users_tool_update_settings [OF assms] numeral_2_eq_2)
qed

lemma example_deps_jwt:
  "isAuthenticated (example_deps ''jwt'')" "getAuthType (example_deps ''jwt'') = ''jwt''"
  "getClientFromContext (example_deps ''jwt'') = None"
  by (simp_all add: example_deps_def)

theorem update_settings_presence_witness:
  "users_tool example_builtins (example_deps ''jwt'') ((no_args UpdateSettings)\<lparr>name' := Some []\<rparr>)
     = (Inl (MCPError VALIDATION_ERROR ''At least one setting field is required'' []),
        [GetClientFromContext])
   \<and> take 2 (snd (users_tool example_builtins (example_deps ''jwt'')
                  ((no_args UpdateSettings)\<lparr>weekStart := Some 0\<rparr>)))
     = [GetClientFromContext,
        UpdateGeneralSettings
          \<lparr>set_name = None, set_language = None, set_timezone = None,
           set_week_start = Some 0, set_frontend_settings = None,
           set_email_reminders_enabled = None, set_overdue_tasks_reminders_enabled = None,
           set_overdue_tasks_reminders_time = None\<rparr>]
   \<and> take 2 (snd (users_tool example_builtins (example_deps ''jwt'')
                  ((no_args UpdateSettings)\<lparr>emailRemindersEnabled := Some False\<rparr>)))
     = [GetClientFromContext,
        UpdateGeneralSettings
          \<lparr>set_name = None, set_language = None, set_timezone = None,
           set_week_start = None, set_frontend_settings = None,
           set_email_reminders_enabled = Some False, set_overdue_tasks_reminders_enabled = None,
           set_overdue_tasks_reminders_time = None\<rparr>]"
proof -
  have s: "\<And>a. subcommand ((no_args UpdateSettings)\<lparr>name' := a\<rparr>) = UpdateSettings"
    "\<And>a. subcommand ((no_args UpdateSettings)\<lparr>weekStart := a\<rparr>) = UpdateSettings"
    "\<And>a. subcommand ((no_args UpdateSettings)\<lparr>emailRemindersEnabled := a\<rparr>) = UpdateSettings"
    by (simp_all add: no_args_def)
  show ?thesis
    using update_settings_presence [OF example_deps_jwt s(1), of "Some []" example_builtins]
      update_settings_presence [OF example_deps_jwt s(2), of "Some 0" example_builtins]
      update_settings_presence [OF example_deps_jwt s(3), of "Some False" example_builtins]
    by (simp add: no_args_def)
qed

text \<open>
  C10 as written fails for one string field: \<open>overdueTasksRemindersTime\<close> is tested
  against \<open>undefined\<close>, so the empty string alone is accepted and forwarded.
\<close>

theorem update_settings_empty_string_counterexample:
  "users_tool example_builtins (example_deps ''jwt'')
     ((no_args UpdateSettings)\<lparr>overdueTasksRemindersTime := Some []\<rparr>)
   = (Inr (Reply \<lparr>operation = ''update-user-settings'',
                  summary = ''User settings updated successfully'',
                  data = UserData
                    \<lparr>id' = Finite 1, username = ''u'', frontend_settings = JObj [],
                     email = None, name = None, created = None, updated = None,
                     language = None, timezone = None, week_start = None,
                     email_reminders_enabled = None,
                     overdue_tasks_reminders_enabled = None\<rparr>,
                  metadata = AffectedFields [''overdueTasksRemindersTime'']\<rparr>),
      [GetClientFromContext,
       UpdateGeneralSettings
         \<lparr>set_name = None, set_language = None, set_timezone = None,
          set_week_start = None, set_frontend_settings = None,
          set_email_reminders_enabled = None, set_overdue_tasks_reminders_enabled = None,
          set_overdue_tasks_reminders_time = Some []\<rparr>,
       GetUser])"
  by (simp add: users_tool_def users_try_def users_update_settings_def no_setting_field_def
        no_args_def example_deps_def transformUser_def isUserObject_def Let_def)

end
